theory Spec2Isabelle
  imports Main "HOL-Library.Multiset"
begin

section \<open>JavaScript values and strings\<close>

text \<open>
  The values that reach the handlers of \<^verbatim>\<open>index.js\<close>: fields of a parsed JSON body, path
  parameters, and the result of \<^verbatim>\<open>parseInt\<close>. Numbers are the integers a JavaScript number
  holds exactly (ids, counters, the result of \<^verbatim>\<open>parseInt\<close> on a short digit string);
  \<open>JNaN\<close> is the not-a-number value. \<open>JObj t\<close> is an object or array, kept as the text
  \<open>t\<close> that the database driver sends for it.
\<close>

datatype jsval = JUndefined | JNull | JBool bool | JNum int | JNaN | JStr string | JObj string

text \<open>JavaScript truthiness: what \<^verbatim>\<open>!v\<close> negates.\<close>

fun truthy :: "jsval \<Rightarrow> bool" where
  "truthy JUndefined = False"
| "truthy JNull = False"
| "truthy (JBool b) = b"
| "truthy (JNum n) = (n \<noteq> 0)"
| "truthy JNaN = False"
| "truthy (JStr s) = (s \<noteq> [])"
| "truthy (JObj t) = True"

text \<open>
  \<^verbatim>\<open>s.split(sep)\<close> for a one-character separator: every occurrence of the separator
  ends a segment, so two adjacent separators give an empty segment and the result is never
  empty.
\<close>

fun split_on :: "char \<Rightarrow> string \<Rightarrow> string list" where
  "split_on sep [] = [[]]"
| "split_on sep (c # cs) =
     (if c = sep then [] # split_on sep cs
      else (case split_on sep cs of
              [] \<Rightarrow> [[c]]
            | seg # segs \<Rightarrow> (c # seg) # segs))"

text \<open>\<^verbatim>\<open>xs[i]\<close> on an array of strings: \<^verbatim>\<open>undefined\<close> out of range.\<close>

definition at_index :: "string list \<Rightarrow> nat \<Rightarrow> jsval" where
  "at_index xs i = (if i < length xs then JStr (xs ! i) else JUndefined)"

definition is_space :: "char \<Rightarrow> bool" where
  "is_space c = (c \<in> set [CHR '' '', CHR 0x09, CHR 0x0A, CHR 0x0B, CHR 0x0C, CHR 0x0D])"

definition digit_val :: "char \<Rightarrow> nat option" where
  "digit_val c =
     (let k = (of_char c :: nat)
      in if 48 \<le> k \<and> k \<le> 57 then Some (k - 48)
         else if 97 \<le> k \<and> k \<le> 102 then Some (k - 87)
         else if 65 \<le> k \<and> k \<le> 70 then Some (k - 55)
         else None)"

definition is_digit_in :: "nat \<Rightarrow> char \<Rightarrow> bool" where
  "is_digit_in radix c = (case digit_val c of None \<Rightarrow> False | Some d \<Rightarrow> d < radix)"

definition to_number :: "nat \<Rightarrow> string \<Rightarrow> nat" where
  "to_number radix ds =
     foldl (\<lambda>a c. a * radix + (case digit_val c of None \<Rightarrow> 0 | Some d \<Rightarrow> d)) 0 ds"

text \<open>
  \<^verbatim>\<open>parseInt(s)\<close> with no radix argument: leading (ASCII) white space is skipped, a sign is read,
  a \<^verbatim>\<open>0x\<close> prefix selects radix 16, and the longest prefix of digits is the value;
  whatever follows the digits is ignored, and with no digit at all the result is
  \<^verbatim>\<open>NaN\<close>.
\<close>

definition parseInt :: "string \<Rightarrow> jsval" where
  "parseInt s =
     (let s1 = dropWhile is_space s;
          neg = (case s1 of [] \<Rightarrow> False | c # r \<Rightarrow> c = CHR ''-'');
          s2 = (case s1 of [] \<Rightarrow> s1
                | c # r \<Rightarrow> if c = CHR ''-'' \<or> c = CHR ''+'' then r else s1);
          hex = (take 2 s2 = ''0x'' \<or> take 2 s2 = ''0X'');
          radix = (if hex then 16 else 10);
          s3 = (if hex then drop 2 s2 else s2);
          ds = takeWhile (is_digit_in radix) s3
      in if ds = [] then JNaN
         else JNum ((if neg then - 1 else 1) * int (to_number radix ds)))"

text \<open>\<^verbatim>\<open>Number.prototype.toString\<close> on an integer: decimal digits, a minus sign first.\<close>

definition digit_char :: "nat \<Rightarrow> char" where
  "digit_char d = char_of (48 + d)"

function show_nat :: "nat \<Rightarrow> string" where
  "show_nat n = (if n < 10 then [digit_char n] else show_nat (n div 10) @ [digit_char (n mod 10)])"
  by pat_completeness auto
termination
  by (relation "measure id") auto

declare show_nat.simps [simp del]

definition show_int :: "int \<Rightarrow> string" where
  "show_int i = (if i < 0 then CHR ''-'' # show_nat (nat (- i)) else show_nat (nat i))"

definition read_nat :: "string \<Rightarrow> nat option" where
  "read_nat s = (if s \<noteq> [] \<and> list_all (is_digit_in 10) s then Some (to_number 10 s) else None)"

definition read_int :: "string \<Rightarrow> int option" where
  "read_int s =
     (case s of
        [] \<Rightarrow> None
      | c # r \<Rightarrow> if c = CHR ''-'' then map_option (\<lambda>n. - int n) (read_nat r)
                 else map_option int (read_nat s))"

section \<open>Token service\<close>

text \<open>
  Modelled from the spec: the Token Service of section 4.1, which \<^verbatim>\<open>index.js\<close> reaches
  through \<^verbatim>\<open>jwt.sign\<close> and \<^verbatim>\<open>jwt.verify\<close> of the jsonwebtoken package; the package is
  not part of the source. A token is a string of three segments separated by dots: a
  fixed header, the payload (the claims, rendered as text and hex-encoded so that it holds
  no dot), and the signature of header and payload under the secret. The keyed hash
  \<open>mac\<close> is a parameter; its output is hex-encoded as well. Verification decodes the
  token, then checks the signature, then the expiry, as the spec lists them.
\<close>

record claims =
  userId :: int
  username :: string
  iat :: nat
  exp :: nat

definition hex_char :: "nat \<Rightarrow> char" where
  "hex_char d = (if d < 10 then char_of (48 + d) else char_of (87 + d))"

fun hex_enc :: "string \<Rightarrow> string" where
  "hex_enc [] = []"
| "hex_enc (c # cs) =
     hex_char ((of_char c :: nat) div 16) # hex_char ((of_char c :: nat) mod 16) # hex_enc cs"

definition hex_val :: "char \<Rightarrow> nat option" where
  "hex_val c =
     (let k = (of_char c :: nat)
      in if 48 \<le> k \<and> k \<le> 57 then Some (k - 48)
         else if 97 \<le> k \<and> k \<le> 102 then Some (k - 87)
         else None)"

fun hex_dec :: "string \<Rightarrow> string option" where
  "hex_dec [] = Some []"
| "hex_dec [a] = None"
| "hex_dec (a # b # cs) =
     (case hex_val a of
        None \<Rightarrow> None
      | Some x \<Rightarrow>
          (case hex_val b of
             None \<Rightarrow> None
           | Some y \<Rightarrow> map_option (\<lambda>r. char_of (16 * x + y) # r) (hex_dec cs)))"

text \<open>The text before the first comma, and the text after it; \<open>None\<close> without a comma.\<close>

fun cut :: "string \<Rightarrow> (string \<times> string) option" where
  "cut [] = None"
| "cut (c # cs) =
     (if c = CHR '','' then Some ([], cs)
      else map_option (\<lambda>(a, r). (c # a, r)) (cut cs))"

definition encode_claims :: "claims \<Rightarrow> string" where
  "encode_claims c =
     hex_enc (show_int (userId c) @ '','' @ show_nat (iat c) @ '','' @ show_nat (exp c)
              @ '','' @ username c)"

definition parse_claims :: "string \<Rightarrow> claims option" where
  "parse_claims t =
     (case cut t of
        None \<Rightarrow> None
      | Some (a, r1) \<Rightarrow>
          (case cut r1 of
             None \<Rightarrow> None
           | Some (b, r2) \<Rightarrow>
               (case cut r2 of
                  None \<Rightarrow> None
                | Some (d, u) \<Rightarrow>
                    (case (read_int a, read_nat b, read_nat d) of
                       (Some i, Some t0, Some t1) \<Rightarrow>
                         Some \<lparr>userId = i, username = u, iat = t0, exp = t1\<rparr>
                     | _ \<Rightarrow> None))))"

definition decode_claims :: "string \<Rightarrow> claims option" where
  "decode_claims p = (case hex_dec p of None \<Rightarrow> None | Some t \<Rightarrow> parse_claims t)"

definition jwt_header :: string where
  "jwt_header = ''eyJhbGciOiJIUzI1NiIsInR5cCI6IkpXVCJ9''"

definition jwt_signature :: "(string \<Rightarrow> string \<Rightarrow> string) \<Rightarrow> string \<Rightarrow> string \<Rightarrow> string \<Rightarrow> string" where
  "jwt_signature mac secret h p = hex_enc (mac secret (h @ ''.'' @ p))"

text \<open>\<^verbatim>\<open>expiresIn: "1d"\<close>: the validity window, in seconds.\<close>

definition one_day :: nat where
  "one_day = 86400"

text \<open>
  \<^verbatim>\<open>jwt.sign({ userId, username }, secret, { expiresIn: "1d" })\<close> at time \<open>now\<close>
  (seconds since the epoch).
\<close>

definition jwt_sign :: "(string \<Rightarrow> string \<Rightarrow> string) \<Rightarrow> int \<Rightarrow> string \<Rightarrow> string \<Rightarrow> nat \<Rightarrow> string" where
  "jwt_sign mac uid uname secret now =
     (let p = encode_claims \<lparr>userId = uid, username = uname, iat = now, exp = now + one_day\<rparr>
      in jwt_header @ ''.'' @ p @ ''.'' @ jwt_signature mac secret jwt_header p)"

datatype jwt_error = Malformed | InvalidSignature | TokenExpired

definition jwt_verify :: "(string \<Rightarrow> string \<Rightarrow> string) \<Rightarrow> string \<Rightarrow> string \<Rightarrow> nat \<Rightarrow> jwt_error + claims" where
  "jwt_verify mac token secret now =
     (case split_on CHR ''.'' token of
        [h, p, s] \<Rightarrow>
          (if h \<noteq> jwt_header then Inl Malformed
           else (case decode_claims p of
                   None \<Rightarrow> Inl Malformed
                 | Some c \<Rightarrow>
                     if s \<noteq> jwt_signature mac secret h p then Inl InvalidSignature
                     else if exp c \<le> now then Inl TokenExpired
                     else Inr c))
      | _ \<Rightarrow> Inl Malformed)"

section \<open>The store\<close>

text \<open>
  Modelled from the spec: the tables of the PostgreSQL database behind \<^verbatim>\<open>db.query\<close>,
  whose schema is not part of the source. Section 3 of the spec gives three tables and
  their columns: administrators, bike listings and contact submissions, with ids and the
  submission time assigned by the store. The SQL statements themselves are in
  \<^verbatim>\<open>index.js\<close>; each is embedded below by what it does to these tables. The store also
  keeps the statements it has received, in order, so that one can say that a request
  issued no statement.
\<close>

record admin =
  admin_id :: int
  admin_username :: string
  admin_password :: string

record bike =
  bike_id :: int
  bike_url :: string
  bike_name :: string
  bike_model :: string
  bike_engine :: string
  bike_fuel :: string
  bike_color :: string
  bike_warranty :: string

record submission =
  submission_id :: int
  submission_name :: string
  submission_phone :: string
  submission_email :: string
  submission_query :: string
  submitted_at :: nat

text \<open>The eight SQL texts of \<^verbatim>\<open>index.js\<close>, in the order of the file.\<close>

datatype sql =
  SELECT_ADMIN | INSERT_BIKE | UPDATE_BIKE | SELECT_BIKES | SELECT_BIKE | DELETE_BIKE
  | INSERT_SUBMISSION | SELECT_SUBMISSIONS

record store =
  admins :: "admin list"
  bikes :: "bike list"
  contact_submissions :: "submission list"
  bikes_id_seq :: int
  contact_submissions_id_seq :: int
  statements :: "(sql \<times> jsval list) list"

datatype db_error = InvalidTextRepresentation string | NotNullViolation

definition issue :: "sql \<Rightarrow> jsval list \<Rightarrow> store \<Rightarrow> store" where
  "issue q params st = st\<lparr>statements := statements st @ [(q, params)]\<rparr>"

text \<open>
  The driver sends every parameter as text: \<^verbatim>\<open>null\<close> and \<^verbatim>\<open>undefined\<close> as SQL NULL
  (\<open>None\<close>), anything else through \<^verbatim>\<open>toString\<close>.
\<close>

fun prepareValue :: "jsval \<Rightarrow> string option" where
  "prepareValue JUndefined = None"
| "prepareValue JNull = None"
| "prepareValue (JBool b) = Some (if b then ''true'' else ''false'')"
| "prepareValue (JNum n) = Some (show_int n)"
| "prepareValue JNaN = Some ''NaN''"
| "prepareValue (JStr s) = Some s"
| "prepareValue (JObj t) = Some t"

text \<open>
  The id columns are numeric (spec, section 4.3), but their SQL type is not in the source:
  the input function of the column type, \<open>id_in\<close>, which reads the text of a parameter
  compared with an id, is a parameter of the model. A text it rejects (\<open>None\<close>) makes the
  statement fail; a NULL parameter matches no row.
\<close>

definition bind_id :: "(string \<Rightarrow> int option) \<Rightarrow> jsval \<Rightarrow> db_error + int option" where
  "bind_id id_in v =
     (case prepareValue v of
        None \<Rightarrow> Inr None
      | Some t \<Rightarrow>
          (case id_in t of
             None \<Rightarrow> Inl (InvalidTextRepresentation t)
           | Some i \<Rightarrow> Inr (Some i)))"

text \<open>
  The input function of PostgreSQL's \<^verbatim>\<open>integer\<close>: white space around an optionally signed
  decimal numeral within 32 bits.
\<close>

definition int4in :: "string \<Rightarrow> int option" where
  "int4in t =
     (let body = rev (dropWhile is_space (rev (dropWhile is_space t)))
      in case (case body of
                 [] \<Rightarrow> None
               | c # r \<Rightarrow> if c = CHR ''+'' then map_option int (read_nat r) else read_int body) of
           None \<Rightarrow> None
         | Some i \<Rightarrow> if - 2147483648 \<le> i \<and> i \<le> 2147483647 then Some i else None)"

text \<open>\<^verbatim>\<open>LOWER\<close> on the ASCII letters.\<close>

definition lower_char :: "char \<Rightarrow> char" where
  "lower_char c =
     (let k = (of_char c :: nat) in if 65 \<le> k \<and> k \<le> 90 then char_of (k + 32) else c)"

definition LOWER :: "string \<Rightarrow> string" where
  "LOWER s = map lower_char s"

text \<open>\<^verbatim>\<open>SELECT * FROM admins WHERE LOWER(username) = LOWER($1)\<close>\<close>

definition db_select_admin :: "jsval \<Rightarrow> store \<Rightarrow> (db_error + admin list) \<times> store" where
  "db_select_admin u st =
     (let st' = issue SELECT_ADMIN [u] st
      in case prepareValue u of
           None \<Rightarrow> (Inr [], st')
         | Some t \<Rightarrow> (Inr (filter (\<lambda>a. LOWER (admin_username a) = LOWER t) (admins st)), st'))"

text \<open>
  \<^verbatim>\<open>INSERT INTO bikes (url, name, model, engine, fuel, color, warranty) VALUES ($1, ..., $7) RETURNING *\<close>.
  All seven columns are required (spec, section 3): a NULL is refused.
\<close>

definition db_insert_bike :: "jsval list \<Rightarrow> store \<Rightarrow> (db_error + bike list) \<times> store" where
  "db_insert_bike params st =
     (let st' = issue INSERT_BIKE params st
      in case those (map prepareValue params) of
           Some [u, n, m, e, f, c, w] \<Rightarrow>
             (let b = \<lparr>bike_id = bikes_id_seq st, bike_url = u, bike_name = n, bike_model = m,
                       bike_engine = e, bike_fuel = f, bike_color = c, bike_warranty = w\<rparr>
              in (Inr [b], st'\<lparr>bikes := bikes st @ [b], bikes_id_seq := bikes_id_seq st + 1\<rparr>))
         | _ \<Rightarrow> (Inl NotNullViolation, st'))"

text \<open>
  \<^verbatim>\<open>UPDATE bikes SET url = $1, ..., warranty = $7 WHERE id = $8 RETURNING *\<close>
\<close>

definition db_update_bike :: "(string \<Rightarrow> int option) \<Rightarrow> jsval list \<Rightarrow> jsval \<Rightarrow> store \<Rightarrow> (db_error + bike list) \<times> store" where
  "db_update_bike id_in vals idv st =
     (let st' = issue UPDATE_BIKE (vals @ [idv]) st
      in case bind_id id_in idv of
           Inl err \<Rightarrow> (Inl err, st')
         | Inr k \<Rightarrow>
             (case those (map prepareValue vals) of
                Some [u, n, m, e, f, c, w] \<Rightarrow>
                  (let bs = map (\<lambda>b. if Some (bike_id b) = k
                                      then b\<lparr>bike_url := u, bike_name := n, bike_model := m,
                                             bike_engine := e, bike_fuel := f, bike_color := c,
                                             bike_warranty := w\<rparr>
                                      else b) (bikes st)
                   in (Inr (filter (\<lambda>b. Some (bike_id b) = k) bs), st'\<lparr>bikes := bs\<rparr>))
              | _ \<Rightarrow> (Inl NotNullViolation, st')))"

text \<open>\<^verbatim>\<open>SELECT * FROM bikes\<close>\<close>

definition db_select_bikes :: "store \<Rightarrow> (db_error + bike list) \<times> store" where
  "db_select_bikes st = (Inr (bikes st), issue SELECT_BIKES [] st)"


text \<open>\<^verbatim>\<open>DELETE FROM bikes WHERE id = $1 RETURNING *\<close>\<close>

definition db_delete_bike :: "(string \<Rightarrow> int option) \<Rightarrow> jsval \<Rightarrow> store \<Rightarrow> (db_error + bike list) \<times> store" where
  "db_delete_bike id_in idv st =
     (let st' = issue DELETE_BIKE [idv] st
      in case bind_id id_in idv of
           Inl err \<Rightarrow> (Inl err, st')
         | Inr k \<Rightarrow>
             (Inr (filter (\<lambda>b. Some (bike_id b) = k) (bikes st)),
              st'\<lparr>bikes := filter (\<lambda>b. Some (bike_id b) \<noteq> k) (bikes st)\<rparr>))"

text \<open>
  \<^verbatim>\<open>INSERT INTO contact_submissions (name, phone, email, query) VALUES ($1, $2, $3, $4) RETURNING *\<close>;
  the store assigns the id and the submission time.
\<close>

definition db_insert_submission :: "nat \<Rightarrow> jsval list \<Rightarrow> store \<Rightarrow> (db_error + submission list) \<times> store" where
  "db_insert_submission now params st =
     (let st' = issue INSERT_SUBMISSION params st
      in case those (map prepareValue params) of
           Some [n, p, e, q] \<Rightarrow>
             (let s = \<lparr>submission_id = contact_submissions_id_seq st, submission_name = n,
                       submission_phone = p, submission_email = e, submission_query = q,
                       submitted_at = now\<rparr>
              in (Inr [s], st'\<lparr>contact_submissions := contact_submissions st @ [s],
                               contact_submissions_id_seq := contact_submissions_id_seq st + 1\<rparr>))
         | _ \<Rightarrow> (Inl NotNullViolation, st'))"

text \<open>\<^verbatim>\<open>SELECT * FROM contact_submissions ORDER BY submitted_at DESC\<close>\<close>

definition order_by_submitted_at_desc :: "submission list \<Rightarrow> submission list" where
  "order_by_submitted_at_desc rows = rev (sort_key submitted_at rows)"

definition db_select_submissions :: "store \<Rightarrow> (db_error + submission list) \<times> store" where
  "db_select_submissions st =
     (Inr (order_by_submitted_at_desc (contact_submissions st)), issue SELECT_SUBMISSIONS [] st)"

section \<open>The application\<close>

text \<open>
  What the process is started with: the environment variable \<^verbatim>\<open>JWT_SECRET\<close>, the keyed
  hash behind the token signature, the password check of bcrypt (does this password match
  this stored hash), and the input function of the id columns of the store.
\<close>

record env =
  process_env_JWT_SECRET :: "string option"
  hmac :: "string \<Rightarrow> string \<Rightarrow> string"
  bcrypt_matches :: "string \<Rightarrow> string \<Rightarrow> bool"
  id_column_in :: "string \<Rightarrow> int option"

text \<open>\<^verbatim>\<open>process.env.JWT_SECRET || "default_secret_key"\<close>\<close>

definition JWT_SECRET :: "env \<Rightarrow> string" where
  "JWT_SECRET e =
     (case process_env_JWT_SECRET e of
        None \<Rightarrow> ''default_secret_key''
      | Some s \<Rightarrow> if s = [] then ''default_secret_key'' else s)"

text \<open>
  A request: the \<^verbatim>\<open>authorization\<close> header if there is one, the \<^verbatim>\<open>:id\<close> segment of the
  path, and the fields of the JSON body (\<open>JUndefined\<close> for a field that is not there).
\<close>

record request =
  authorization :: "string option"
  params_id :: string
  body :: "string \<Rightarrow> jsval"

datatype reply =
  Error string
  | LoginMessage string string
  | Valid claims
  | BikeMessage string "bike option"
  | SubmissionMessage string "submission option"
  | Message string
  | BikeObject bike
  | BikeRows "bike list"
  | SubmissionRows "submission list"

record response =
  status :: nat
  json :: reply

definition server_error :: response where
  "server_error = \<lparr>status = 500, json = Error ''Server error''\<rparr>"

text \<open>\<^verbatim>\<open>result.rows[0]\<close>\<close>

definition first_row :: "'a list \<Rightarrow> 'a option" where
  "first_row rows = (case rows of [] \<Rightarrow> None | r # rs \<Rightarrow> Some r)"

text \<open>\<^verbatim>\<open>jwt.verify(token, JWT_SECRET)\<close> on a value: anything but a string is refused.\<close>

definition verify_value :: "env \<Rightarrow> jsval \<Rightarrow> nat \<Rightarrow> jwt_error + claims" where
  "verify_value e token now =
     (case token of
        JStr t \<Rightarrow> jwt_verify (hmac e) t (JWT_SECRET e) now
      | _ \<Rightarrow> Inl Malformed)"

text \<open>
  \<^verbatim>\<open>bcrypt.compare(password, hash)\<close>: the promise is rejected (\<open>None\<close>) unless the password
  is a string.
\<close>

definition bcrypt_compare :: "env \<Rightarrow> jsval \<Rightarrow> string \<Rightarrow> bool option" where
  "bcrypt_compare e password hash =
     (case password of
        JStr p \<Rightarrow> Some (bcrypt_matches e p hash)
      | _ \<Rightarrow> None)"

subsection \<open>The auth gate\<close>

text \<open>
  The middleware \<^verbatim>\<open>verifyToken\<close>: \<open>Inl\<close> is the response it sends itself, \<open>Inr\<close> the
  decoded claims it attaches to the request before calling \<^verbatim>\<open>next()\<close>.
\<close>

definition verifyToken :: "env \<Rightarrow> nat \<Rightarrow> request \<Rightarrow> response + claims" where
  "verifyToken e now req =
     (let authHeader = authorization req;
          token = (case authHeader of
                     None \<Rightarrow> JUndefined
                   | Some h \<Rightarrow> if h = [] then JStr h else at_index (split_on CHR '' '' h) 1)
      in if \<not> truthy token then Inl \<lparr>status = 401, json = Error ''No token provided''\<rparr>
         else (case verify_value e token now of
                 Inl err \<Rightarrow> Inl \<lparr>status = 401, json = Error ''Invalid token''\<rparr>
               | Inr decoded \<Rightarrow> Inr decoded))"

text \<open>A route registered with the auth gate in front of its handler.\<close>

definition protected :: "env \<Rightarrow> nat \<Rightarrow> (request \<Rightarrow> store \<Rightarrow> response \<times> store) \<Rightarrow> request \<Rightarrow> store \<Rightarrow> response \<times> store" where
  "protected e now handler req st =
     (case verifyToken e now req of
        Inl res \<Rightarrow> (res, st)
      | Inr decoded \<Rightarrow> handler req st)"

subsection \<open>The handlers\<close>

text \<open>\<^verbatim>\<open>POST /api/login\<close>\<close>

definition login :: "env \<Rightarrow> nat \<Rightarrow> request \<Rightarrow> store \<Rightarrow> response \<times> store" where
  "login e now req st =
     (let req_username = body req ''username'';
          req_password = body req ''password''
      in case db_select_admin req_username st of
           (Inl err, st') \<Rightarrow> (server_error, st')
         | (Inr rows, st') \<Rightarrow>
             (case rows of
                [] \<Rightarrow> (\<lparr>status = 401, json = Error ''Invalid username or password''\<rparr>, st')
              | user # others \<Rightarrow>
                  (case bcrypt_compare e req_password (admin_password user) of
                     None \<Rightarrow> (server_error, st')
                   | Some isMatch \<Rightarrow>
                       if \<not> isMatch
                       then (\<lparr>status = 401, json = Error ''Invalid username or password''\<rparr>, st')
                       else (\<lparr>status = 200,
                              json = LoginMessage ''Login successful''
                                (jwt_sign (hmac e) (admin_id user) (admin_username user)
                                   (JWT_SECRET e) now)\<rparr>, st'))))"

text \<open>\<^verbatim>\<open>POST /api/verify-token\<close>\<close>

definition verify_token :: "env \<Rightarrow> nat \<Rightarrow> request \<Rightarrow> response" where
  "verify_token e now req =
     (let token = body req ''token''
      in if \<not> truthy token then \<lparr>status = 401, json = Error ''No token provided''\<rparr>
         else (case verify_value e token now of
                 Inl err \<Rightarrow> \<lparr>status = 401, json = Error ''Invalid token''\<rparr>
               | Inr decoded \<Rightarrow> \<lparr>status = 200, json = Valid decoded\<rparr>))"

text \<open>The seven fields of a listing, read from the body in the order of the SQL columns.\<close>

definition bike_field_names :: "string list" where
  "bike_field_names = [''url'', ''name'', ''model'', ''engine'', ''fuel'', ''color'', ''warranty'']"

definition bike_fields :: "request \<Rightarrow> jsval list" where
  "bike_fields req = map (body req) bike_field_names"

text \<open>\<^verbatim>\<open>POST /api/bikes\<close>, behind the auth gate\<close>

definition add_bike :: "request \<Rightarrow> store \<Rightarrow> response \<times> store" where
  "add_bike req st =
     (if \<not> truthy (body req ''url'') \<or> \<not> truthy (body req ''name'')
         \<or> \<not> truthy (body req ''model'') \<or> \<not> truthy (body req ''engine'')
         \<or> \<not> truthy (body req ''fuel'') \<or> \<not> truthy (body req ''color'')
         \<or> \<not> truthy (body req ''warranty'')
      then (\<lparr>status = 400, json = Error ''All fields are required''\<rparr>, st)
      else (case db_insert_bike (bike_fields req) st of
              (Inl err, st') \<Rightarrow> (server_error, st')
            | (Inr rows, st') \<Rightarrow>
                (\<lparr>status = 201, json = BikeMessage ''Bike added successfully'' (first_row rows)\<rparr>,
                 st')))"

text \<open>\<^verbatim>\<open>PUT /api/bikes/:id\<close>, behind the auth gate: the id goes to the store as the path has it.\<close>

definition update_bike :: "env \<Rightarrow> request \<Rightarrow> store \<Rightarrow> response \<times> store" where
  "update_bike e req st =
     (if \<not> truthy (body req ''url'') \<or> \<not> truthy (body req ''name'')
         \<or> \<not> truthy (body req ''model'') \<or> \<not> truthy (body req ''engine'')
         \<or> \<not> truthy (body req ''fuel'') \<or> \<not> truthy (body req ''color'')
         \<or> \<not> truthy (body req ''warranty'')
      then (\<lparr>status = 400, json = Error ''All fields are required''\<rparr>, st)
      else (case db_update_bike (id_column_in e) (bike_fields req) (JStr (params_id req)) st of
              (Inl err, st') \<Rightarrow> (server_error, st')
            | (Inr rows, st') \<Rightarrow>
                (case rows of
                   [] \<Rightarrow> (\<lparr>status = 404, json = Error ''Bike not found''\<rparr>, st')
                 | b # others \<Rightarrow>
                     (\<lparr>status = 200, json = BikeMessage ''Bike updated successfully'' (Some b)\<rparr>,
                      st'))))"

text \<open>\<^verbatim>\<open>GET /api/bikes\<close>\<close>

definition get_bikes :: "store \<Rightarrow> response \<times> store" where
  "get_bikes st =
     (case db_select_bikes st of
        (Inl err, st') \<Rightarrow> (server_error, st')
      | (Inr rows, st') \<Rightarrow> (\<lparr>status = 200, json = BikeRows rows\<rparr>, st'))"


text \<open>\<^verbatim>\<open>DELETE /api/bikes/:id\<close>, behind the auth gate\<close>

definition delete_bike :: "env \<Rightarrow> request \<Rightarrow> store \<Rightarrow> response \<times> store" where
  "delete_bike e req st =
     (case db_delete_bike (id_column_in e) (parseInt (params_id req)) st of
        (Inl err, st') \<Rightarrow> (server_error, st')
      | (Inr rows, st') \<Rightarrow>
          (case rows of
             [] \<Rightarrow> (\<lparr>status = 404, json = Error ''Bike not found''\<rparr>, st')
           | b # others \<Rightarrow> (\<lparr>status = 200, json = Message ''Bike deleted successfully''\<rparr>, st')))"

text \<open>\<^verbatim>\<open>POST /api/contact\<close>\<close>

definition submit_contact :: "nat \<Rightarrow> request \<Rightarrow> store \<Rightarrow> response \<times> store" where
  "submit_contact now req st =
     (if \<not> truthy (body req ''name'') \<or> \<not> truthy (body req ''phone'')
         \<or> \<not> truthy (body req ''email'') \<or> \<not> truthy (body req ''query'')
      then (\<lparr>status = 400, json = Error ''All fields are required''\<rparr>, st)
      else (case db_insert_submission now
                   (map (body req) [''name'', ''phone'', ''email'', ''query'']) st of
              (Inl err, st') \<Rightarrow> (server_error, st')
            | (Inr rows, st') \<Rightarrow>
                (\<lparr>status = 201,
                  json = SubmissionMessage ''Contact form submitted successfully'' (first_row rows)\<rparr>,
                 st')))"

text \<open>\<^verbatim>\<open>GET /api/contact-submissions\<close>, behind the auth gate\<close>

definition get_contact_submissions :: "request \<Rightarrow> store \<Rightarrow> response \<times> store" where
  "get_contact_submissions req st =
     (case db_select_submissions st of
        (Inl err, st') \<Rightarrow> (server_error, st')
      | (Inr rows, st') \<Rightarrow> (\<lparr>status = 200, json = SubmissionRows rows\<rparr>, st'))"

subsection \<open>The routes\<close>

text \<open>The four routes registered with \<^verbatim>\<open>verifyToken\<close>.\<close>

definition POST_api_bikes :: "env \<Rightarrow> nat \<Rightarrow> request \<Rightarrow> store \<Rightarrow> response \<times> store" where
  "POST_api_bikes e now = protected e now add_bike"

definition PUT_api_bikes_id :: "env \<Rightarrow> nat \<Rightarrow> request \<Rightarrow> store \<Rightarrow> response \<times> store" where
  "PUT_api_bikes_id e now = protected e now (update_bike e)"

definition DELETE_api_bikes_id :: "env \<Rightarrow> nat \<Rightarrow> request \<Rightarrow> store \<Rightarrow> response \<times> store" where
  "DELETE_api_bikes_id e now = protected e now (delete_bike e)"

definition GET_api_contact_submissions :: "env \<Rightarrow> nat \<Rightarrow> request \<Rightarrow> store \<Rightarrow> response \<times> store" where
  "GET_api_contact_submissions e now = protected e now get_contact_submissions"


definition POST_api_login :: "env \<Rightarrow> nat \<Rightarrow> request \<Rightarrow> store \<Rightarrow> response \<times> store" where
  "POST_api_login e now = login e now"

definition POST_api_verify_token :: "env \<Rightarrow> nat \<Rightarrow> request \<Rightarrow> response" where
  "POST_api_verify_token e now = verify_token e now"

section \<open>The words of the spec about tokens\<close>





section \<open>Sample data\<close>

text \<open>
  A process environment, a store and requests on which the definitions are evaluated:
  no \<^verbatim>\<open>JWT_SECRET\<close> in the environment, integer id columns, one administrator, one
  listing with id 12, and three contact submissions inserted in the order of their
  submission times.
\<close>

definition sample_env :: env where
  "sample_env =
     \<lparr>process_env_JWT_SECRET = None,
      hmac = (\<lambda>key msg. key @ msg),
      bcrypt_matches = (\<lambda>password hash. hash = rev password),
      id_column_in = int4in\<rparr>"

definition sample_bike :: bike where
  "sample_bike =
     \<lparr>bike_id = 12, bike_url = ''https://img.example/12.png'', bike_name = ''Pulsar'',
      bike_model = ''2021'', bike_engine = ''150cc'', bike_fuel = ''Petrol'',
      bike_color = ''Black'', bike_warranty = ''1 year''\<rparr>"

definition sample_submission :: "int \<Rightarrow> nat \<Rightarrow> submission" where
  "sample_submission i t =
     \<lparr>submission_id = i, submission_name = ''Asha'', submission_phone = ''5550100'',
      submission_email = ''asha@example.org'', submission_query = ''Is it available?'',
      submitted_at = t\<rparr>"

definition sample_store :: store where
  "sample_store =
     \<lparr>admins = [\<lparr>admin_id = 1, admin_username = ''Admin'', admin_password = ''terces''\<rparr>],
      bikes = [sample_bike],
      contact_submissions =
        [sample_submission 1 100, sample_submission 2 200, sample_submission 3 300],
      bikes_id_seq = 13,
      contact_submissions_id_seq = 4,
      statements = []\<rparr>"

definition sample_token :: string where
  "sample_token = jwt_sign (hmac sample_env) 1 ''Admin'' (JWT_SECRET sample_env) 1000"

definition anonymous :: request where
  "anonymous = \<lparr>authorization = None, params_id = [], body = (\<lambda>k. JUndefined)\<rparr>"

definition authenticated :: request where
  "authenticated = anonymous\<lparr>authorization := Some (''Bearer '' @ sample_token)\<rparr>"

definition full_body :: "string \<Rightarrow> jsval" where
  "full_body k = (if k \<in> set bike_field_names then JStr ''x'' else JUndefined)"

section \<open>Auxiliary facts\<close>

subsection \<open>Splitting\<close>


lemma split_on_no_sep: "sep \<notin> set a \<Longrightarrow> split_on sep a = [a]"
  by (induction a) auto

lemma split_on_append: "sep \<notin> set a \<Longrightarrow> split_on sep (a @ sep # r) = a # split_on sep r"
  by (induction a) auto

subsection \<open>The token codec\<close>

lemma hex_val_hex_char: "d < 16 \<Longrightarrow> hex_val (hex_char d) = Some d"
  by (auto simp: hex_val_def hex_char_def Let_def)

lemma hex_val_dot: "hex_val CHR ''.'' = None"
  by (simp add: hex_val_def)

lemma hex_char_not_dot: "d < 16 \<Longrightarrow> CHR ''.'' \<noteq> hex_char d"
  using hex_val_hex_char [of d] hex_val_dot by auto

lemma of_char_div_16: "(of_char c :: nat) div 16 < 16"
  using nat_of_char_less_256 [of c] by arith

lemma hex_dec_enc: "hex_dec (hex_enc s) = Some s"
  by (induction s) (simp_all add: hex_val_hex_char of_char_div_16)

lemma hex_enc_no_dot: "CHR ''.'' \<notin> set (hex_enc s)"
  by (induction s) (simp_all add: hex_char_not_dot of_char_div_16)

lemma digit_val_digit_char: "d < 10 \<Longrightarrow> digit_val (digit_char d) = Some d"
  by (simp add: digit_val_def digit_char_def Let_def)

lemma is_digit_digit_char: "d < 10 \<Longrightarrow> is_digit_in 10 (digit_char d)"
  by (simp add: is_digit_in_def digit_val_digit_char)

lemma digit_val_comma: "digit_val CHR '','' = None"
  by (simp add: digit_val_def)

lemma digit_val_minus: "digit_val CHR ''-'' = None"
  by (simp add: digit_val_def)

lemma show_nat_not_Nil: "show_nat n \<noteq> []"
  by (subst show_nat.simps) simp

lemma show_nat_digits: "list_all (is_digit_in 10) (show_nat n)"
proof (induction n rule: show_nat.induct)
  case (1 n)
  show ?case
  proof (cases "n < 10")
    case True
    then show ?thesis by (subst show_nat.simps) (simp add: is_digit_digit_char)
  next
    case False
    with 1 show ?thesis by (subst show_nat.simps) (simp add: is_digit_digit_char)
  qed
qed

lemma to_number_snoc:
  "to_number r (ds @ [c]) = to_number r ds * r + (case digit_val c of None \<Rightarrow> 0 | Some d \<Rightarrow> d)"
  by (simp add: to_number_def)

lemma to_number_show_nat: "to_number 10 (show_nat n) = n"
proof (induction n rule: show_nat.induct)
  case (1 n)
  show ?case
  proof (cases "n < 10")
    case True
    then show ?thesis
      by (subst show_nat.simps) (simp add: to_number_def digit_val_digit_char)
  next
    case False
    with 1 have "to_number 10 (show_nat (n div 10)) = n div 10" by simp
    with False show ?thesis
      by (subst show_nat.simps) (simp add: to_number_snoc digit_val_digit_char)
  qed
qed

lemma read_nat_show_nat: "read_nat (show_nat n) = Some n"
  by (simp add: read_nat_def show_nat_not_Nil show_nat_digits to_number_show_nat)

lemma show_nat_no_comma: "CHR '','' \<notin> set (show_nat n)"
proof
  assume "CHR '','' \<in> set (show_nat n)"
  with show_nat_digits [of n] have "is_digit_in 10 CHR '',''"
    by (simp add: list_all_iff)
  then show False by (simp add: is_digit_in_def digit_val_comma)
qed

lemma show_nat_hd_not_minus: "show_nat n = c # r \<Longrightarrow> c \<noteq> CHR ''-''"
proof
  assume a: "show_nat n = c # r" and b: "c = CHR ''-''"
  from show_nat_digits [of n] a have "is_digit_in 10 c" by simp
  with b show False by (simp add: is_digit_in_def digit_val_minus)
qed

lemma read_int_show_int: "read_int (show_int i) = Some i"
proof (cases "i < 0")
  case True
  then show ?thesis by (simp add: read_int_def show_int_def read_nat_show_nat)
next
  case False
  obtain c r where cr: "show_nat (nat i) = c # r"
    using show_nat_not_Nil [of "nat i"] by (cases "show_nat (nat i)") auto
  have "c \<noteq> CHR ''-''" using show_nat_hd_not_minus [OF cr] .
  moreover have "read_nat (c # r) = Some (nat i)" using read_nat_show_nat [of "nat i"] cr by simp
  ultimately show ?thesis using False cr by (simp add: read_int_def show_int_def)
qed

lemma show_int_no_comma: "CHR '','' \<notin> set (show_int i)"
  by (simp add: show_int_def show_nat_no_comma)

lemma cut_append: "CHR '','' \<notin> set a \<Longrightarrow> cut (a @ CHR '','' # r) = Some (a, r)"
  by (induction a) auto

lemma parse_claims_text:
  "parse_claims (show_int (userId c) @ '','' @ show_nat (iat c) @ '','' @ show_nat (exp c)
                 @ '','' @ username c) = Some c"
  by (simp add: parse_claims_def cut_append show_int_no_comma show_nat_no_comma
      read_int_show_int read_nat_show_nat)

lemma decode_encode_claims: "decode_claims (encode_claims c) = Some c"
  using parse_claims_text [of c] by (simp add: decode_claims_def encode_claims_def hex_dec_enc)

lemma encode_claims_no_dot: "CHR ''.'' \<notin> set (encode_claims c)"
  by (simp add: encode_claims_def hex_enc_no_dot)

lemma jwt_header_no_dot: "CHR ''.'' \<notin> set jwt_header"
  by (simp add: jwt_header_def)

lemma jwt_signature_no_dot: "CHR ''.'' \<notin> set (jwt_signature mac secret h p)"
  by (simp add: jwt_signature_def hex_enc_no_dot)

lemma split_token:
  "CHR ''.'' \<notin> set h \<Longrightarrow> CHR ''.'' \<notin> set p \<Longrightarrow> CHR ''.'' \<notin> set s \<Longrightarrow>
   split_on CHR ''.'' (h @ CHR ''.'' # p @ CHR ''.'' # s) = [h, p, s]"
  by (simp add: split_on_append split_on_no_sep)

lemma jwt_verify_sign:
  "now < t0 + one_day \<Longrightarrow>
   jwt_verify mac (jwt_sign mac uid uname secret t0) secret now
     = Inr \<lparr>userId = uid, username = uname, iat = t0, exp = t0 + one_day\<rparr>"
  by (simp add: jwt_verify_def jwt_sign_def Let_def split_token jwt_header_no_dot
      encode_claims_no_dot jwt_signature_no_dot decode_encode_claims)

lemma hex_val_space: "hex_val CHR '' '' = None"
  by (simp add: hex_val_def)

lemma hex_char_not_space: "d < 16 \<Longrightarrow> CHR '' '' \<noteq> hex_char d"
  using hex_val_hex_char [of d] hex_val_space by auto

lemma hex_enc_no_space: "CHR '' '' \<notin> set (hex_enc s)"
  by (induction s) (simp_all add: hex_char_not_space of_char_div_16)

lemma jwt_sign_no_space: "CHR '' '' \<notin> set (jwt_sign mac uid uname secret t0)"
  by (simp add: jwt_sign_def Let_def encode_claims_def jwt_signature_def hex_enc_no_space
      jwt_header_def)

lemma jwt_sign_not_Nil: "jwt_sign mac uid uname secret t0 \<noteq> []"
  by (simp add: jwt_sign_def Let_def jwt_header_def)

subsection \<open>Verification, in the gate and in the handler\<close>

lemma verifyToken_segment:
  assumes "CHR '' '' \<notin> set a" "CHR '' '' \<notin> set t"
    and "h = a @ CHR '' '' # t \<or> h = a @ CHR '' '' # t @ CHR '' '' # rest"
    and "authorization req = Some h"
  shows "verifyToken e now req =
           (if t = [] then Inl \<lparr>status = 401, json = Error ''No token provided''\<rparr>
            else (case jwt_verify (hmac e) t (JWT_SECRET e) now of
                    Inl err \<Rightarrow> Inl \<lparr>status = 401, json = Error ''Invalid token''\<rparr>
                  | Inr decoded \<Rightarrow> Inr decoded))"
proof -
  have "\<exists>more. split_on CHR '' '' h = a # t # more"
    using assms(1-3) by (auto simp: split_on_append split_on_no_sep)
  then obtain more where "split_on CHR '' '' h = a # t # more" ..
  moreover have "h \<noteq> []" using assms(3) by auto
  ultimately show ?thesis using assms(4)
    by (simp add: verifyToken_def at_index_def verify_value_def)
qed










subsection \<open>The sample token\<close>

lemma sample_token_no_space: "CHR '' '' \<notin> set sample_token"
  by (simp add: sample_token_def jwt_sign_no_space)

lemma sample_token_not_Nil: "sample_token \<noteq> []"
  by (simp add: sample_token_def jwt_sign_not_Nil)


lemma sample_token_verifies:
  "now < 87400 \<Longrightarrow>
   jwt_verify (hmac sample_env) sample_token (JWT_SECRET sample_env) now
     = Inr \<lparr>userId = 1, username = ''Admin'', iat = 1000, exp = 87400\<rparr>"
  using jwt_verify_sign [of now 1000 "hmac sample_env" 1 "''Admin''" "JWT_SECRET sample_env"]
  by (simp add: sample_token_def one_day_def)




subsection \<open>Store operations and handlers\<close>

lemma order_by_submitted_at_desc_mset:
  "mset (order_by_submitted_at_desc rows) = mset rows"
  by (simp add: order_by_submitted_at_desc_def)

lemma order_by_submitted_at_desc_sorted:
  assumes "distinct (map submitted_at rows)"
  shows "sorted_wrt (\<lambda>a b. submitted_at b < submitted_at a) (order_by_submitted_at_desc rows)"
proof -
  have "mset (map submitted_at (sort_key submitted_at rows)) = mset (map submitted_at rows)"
    by simp
  then have "distinct (map submitted_at (sort_key submitted_at rows))"
    using assms by (metis mset_eq_imp_distinct_iff)
  moreover have "sorted (map submitted_at (sort_key submitted_at rows))"
    by (rule sorted_sort_key)
  ultimately have "sorted_wrt (<) (map submitted_at (sort_key submitted_at rows))"
    by (simp add: strict_sorted_iff)
  then have "sorted_wrt (\<lambda>a b. submitted_at a < submitted_at b) (sort_key submitted_at rows)"
    by (simp add: sorted_wrt_map)
  then show ?thesis
    by (simp add: order_by_submitted_at_desc_def sorted_wrt_rev)
qed

lemma bearer_sample_token_admitted:
  assumes "authorization req = Some (''Bearer '' @ sample_token)" and "now < 87400"
  shows "verifyToken sample_env now req
           = Inr \<lparr>userId = 1, username = ''Admin'', iat = 1000, exp = 87400\<rparr>"
  using verifyToken_segment [of "''Bearer''" sample_token "''Bearer '' @ sample_token" "[]"
      req sample_env now] assms
  by (simp add: sample_token_no_space sample_token_not_Nil sample_token_verifies)

lemma authenticated_header: "authorization authenticated = Some (''Bearer '' @ sample_token)"
  by (simp add: authenticated_def)

lemma LOWER_Admin: "LOWER ''Admin'' = ''admin''"
  by (simp add: LOWER_def lower_char_def char_of_eq_iff)

lemma LOWER_admin: "LOWER ''admin'' = ''admin''"
  by (simp add: LOWER_def lower_char_def char_of_eq_iff)


lemma verifyToken_Inl_status: "verifyToken e now req = Inl res \<Longrightarrow> status res = 401"
  by (auto simp: verifyToken_def Let_def split: if_splits sum.splits)

lemma add_bike_missing:
  "k \<in> set bike_field_names \<Longrightarrow> \<not> truthy (body req k) \<Longrightarrow>
   add_bike req st = (\<lparr>status = 400, json = Error ''All fields are required''\<rparr>, st)"
  by (auto simp: add_bike_def bike_field_names_def)

lemma update_bike_missing:
  "k \<in> set bike_field_names \<Longrightarrow> \<not> truthy (body req k) \<Longrightarrow>
   update_bike e req st = (\<lparr>status = 400, json = Error ''All fields are required''\<rparr>, st)"
  by (auto simp: update_bike_def bike_field_names_def)







lemma login_store:
  "snd (login e now req st) = issue SELECT_ADMIN [body req ''username''] st"
  by (simp add: login_def db_select_admin_def Let_def
      split: option.splits list.splits)











lemma login_success:
  assumes "login e t0 req st = (\<lparr>status = 200, json = LoginMessage msg tok\<rparr>, st')"
  shows "\<exists>a \<in> set (admins st).
           tok = jwt_sign (hmac e) (admin_id a) (admin_username a) (JWT_SECRET e) t0"
proof (cases "prepareValue (body req ''username'')")
  case None
  with assms show ?thesis
    by (simp add: login_def db_select_admin_def Let_def)
next
  case (Some t)
  show ?thesis
  proof (cases "filter (\<lambda>a. LOWER (admin_username a) = LOWER t) (admins st)")
    case Nil
    with Some assms show ?thesis
      by (simp add: login_def db_select_admin_def Let_def)
  next
    case (Cons a others)
    then have "a \<in> set (filter (\<lambda>a. LOWER (admin_username a) = LOWER t) (admins st))"
      by simp
    then have "a \<in> set (admins st)" by simp
    moreover have "tok = jwt_sign (hmac e) (admin_id a) (admin_username a) (JWT_SECRET e) t0"
      using assms Some Cons
      by (auto simp: login_def db_select_admin_def Let_def server_error_def
          split: option.splits if_splits)
    ultimately show ?thesis by blast
  qed
qed

lemma sample_login:
  "POST_api_login sample_env 1000
     (anonymous\<lparr>body := (\<lambda>k. if k = ''username'' then JStr ''admin'' else JStr ''secret'')\<rparr>)
     sample_store
   = (\<lparr>status = 200, json = LoginMessage ''Login successful'' sample_token\<rparr>,
      issue SELECT_ADMIN [JStr ''admin''] sample_store)"
  by (simp add: POST_api_login_def login_def db_select_admin_def Let_def bcrypt_compare_def
      sample_store_def LOWER_Admin LOWER_admin sample_token_def sample_env_def issue_def)

section \<open>The claims\<close>




text \<open>
  Claim C2. For every administrator id and username, the token that the signing step of
  the login handler produces at time \<open>t0\<close> (the call of \<open>jwt_sign\<close> in \<open>login\<close>, with the
  secret of the process), presented to \<^verbatim>\<open>POST /api/verify-token\<close> at any time before the
  day of validity is over, is answered 200 with \<^verbatim>\<open>valid: true\<close> and claims that hold the
  same id and username. The token of a successful login is such a token, for an
  administrator of the store.
\<close>

theorem issued_token_verifies:
  assumes "now < t0 + one_day"
  shows "(body req ''token'' = JStr (jwt_sign (hmac e) uid uname (JWT_SECRET e) t0) \<longrightarrow>
            POST_api_verify_token e now req
              = \<lparr>status = 200,
                 json = Valid \<lparr>userId = uid, username = uname, iat = t0, exp = t0 + one_day\<rparr>\<rparr>)
       \<and> (POST_api_login e t0 lreq st = (\<lparr>status = 200, json = LoginMessage msg tok\<rparr>, st')
            \<and> body req ''token'' = JStr tok \<longrightarrow>
            (\<exists>a \<in> set (admins st).
               POST_api_verify_token e now req
                 = \<lparr>status = 200,
                    json = Valid \<lparr>userId = admin_id a, username = admin_username a, iat = t0,
                                  exp = t0 + one_day\<rparr>\<rparr>))"
proof (intro conjI impI)
  assume "body req ''token'' = JStr (jwt_sign (hmac e) uid uname (JWT_SECRET e) t0)"
  with assms show "POST_api_verify_token e now req
              = \<lparr>status = 200,
                 json = Valid \<lparr>userId = uid, username = uname, iat = t0, exp = t0 + one_day\<rparr>\<rparr>"
    by (simp add: POST_api_verify_token_def verify_token_def verify_value_def jwt_verify_sign
        jwt_sign_not_Nil)
next
  assume a: "POST_api_login e t0 lreq st = (\<lparr>status = 200, json = LoginMessage msg tok\<rparr>, st')
            \<and> body req ''token'' = JStr tok"
  then obtain a where "a \<in> set (admins st)"
    and "tok = jwt_sign (hmac e) (admin_id a) (admin_username a) (JWT_SECRET e) t0"
    using login_success [of e t0 lreq st msg tok st'] by (auto simp: POST_api_login_def)
  with a assms show "\<exists>a \<in> set (admins st).
               POST_api_verify_token e now req
                 = \<lparr>status = 200,
                    json = Valid \<lparr>userId = admin_id a, username = admin_username a, iat = t0,
                                  exp = t0 + one_day\<rparr>\<rparr>"
    by (auto simp: POST_api_verify_token_def verify_token_def verify_value_def jwt_verify_sign
        jwt_sign_not_Nil)
qed

theorem issued_token_verifies_witness:
  "(2000::nat) < 1000 + one_day
   \<and> POST_api_login sample_env 1000
       (anonymous\<lparr>body := (\<lambda>k. if k = ''username'' then JStr ''admin'' else JStr ''secret'')\<rparr>)
       sample_store
     = (\<lparr>status = 200, json = LoginMessage ''Login successful'' sample_token\<rparr>,
        issue SELECT_ADMIN [JStr ''admin''] sample_store)
   \<and> map admin_id (admins sample_store) = [1]
   \<and> map admin_username (admins sample_store) = [''Admin'']
   \<and> POST_api_verify_token sample_env 2000 (anonymous\<lparr>body := (\<lambda>k. JStr sample_token)\<rparr>)
     = \<lparr>status = 200,
        json = Valid \<lparr>userId = 1, username = ''Admin'', iat = 1000, exp = 1000 + one_day\<rparr>\<rparr>"
proof -
  let ?lreq = "anonymous\<lparr>body := (\<lambda>k. if k = ''username'' then JStr ''admin'' else JStr ''secret'')\<rparr>"
  let ?req = "anonymous\<lparr>body := (\<lambda>k. JStr sample_token)\<rparr>"
  have h: "(2000::nat) < 1000 + one_day" by (simp add: one_day_def)
  have t: "body ?req ''token'' = JStr sample_token" by simp
  have adm: "admins sample_store
      = [\<lparr>admin_id = 1, admin_username = ''Admin'', admin_password = ''terces''\<rparr>]"
    by (simp add: sample_store_def)
  from issued_token_verifies [OF h, of ?req sample_env _ _ ?lreq sample_store
      "''Login successful''" sample_token "issue SELECT_ADMIN [JStr ''admin''] sample_store"]
    sample_login t adm
  have "POST_api_verify_token sample_env 2000 ?req
     = \<lparr>status = 200,
        json = Valid \<lparr>userId = 1, username = ''Admin'', iat = 1000, exp = 1000 + one_day\<rparr>\<rparr>"
    by simp
  with h sample_login adm show ?thesis by simp
qed





text \<open>
  Claim C5, as amended. For \<^verbatim>\<open>POST /api/bikes\<close> and \<^verbatim>\<open>PUT /api/bikes/:id\<close>, a request in
  which one of the seven required fields is missing or falsy (empty string included) is
  answered 400 \<^verbatim>\<open>All fields are required\<close> if the auth gate admits it, and 401 by the auth gate
  otherwise; in both cases the store is returned as it was, no statement issued.
\<close>

theorem missing_field_is_400_behind_gate:
  assumes "k \<in> set bike_field_names" and "\<not> truthy (body req k)"
  shows "(\<forall>user. verifyToken e now req = Inr user \<longrightarrow>
            POST_api_bikes e now req st
              = (\<lparr>status = 400, json = Error ''All fields are required''\<rparr>, st)
            \<and> PUT_api_bikes_id e now req st
              = (\<lparr>status = 400, json = Error ''All fields are required''\<rparr>, st))
       \<and> (\<forall>res. verifyToken e now req = Inl res \<longrightarrow>
            status res = 401
            \<and> POST_api_bikes e now req st = (res, st)
            \<and> PUT_api_bikes_id e now req st = (res, st))"
  using assms
  by (simp add: POST_api_bikes_def PUT_api_bikes_id_def protected_def add_bike_missing
      update_bike_missing verifyToken_Inl_status)

theorem missing_field_is_400_behind_gate_witness:
  "''color'' \<in> set bike_field_names
   \<and> body (authenticated\<lparr>body := full_body(''color'' := JStr [])\<rparr>) ''color'' = JStr []
   \<and> POST_api_bikes sample_env 2000 (authenticated\<lparr>body := full_body(''color'' := JStr [])\<rparr>)
        sample_store
       = (\<lparr>status = 400, json = Error ''All fields are required''\<rparr>, sample_store)
   \<and> PUT_api_bikes_id sample_env 2000 (authenticated\<lparr>body := full_body(''color'' := JStr [])\<rparr>)
        sample_store
       = (\<lparr>status = 400, json = Error ''All fields are required''\<rparr>, sample_store)"
proof -
  let ?req = "authenticated\<lparr>body := full_body(''color'' := JStr [])\<rparr>"
  have k: "''color'' \<in> set bike_field_names" by (simp add: bike_field_names_def)
  have f: "\<not> truthy (body ?req ''color'')" by simp
  have gate: "verifyToken sample_env 2000 ?req
      = Inr \<lparr>userId = 1, username = ''Admin'', iat = 1000, exp = 87400\<rparr>"
    by (rule bearer_sample_token_admitted) (simp_all add: authenticated_header)
  from missing_field_is_400_behind_gate [OF k f, of sample_env 2000 sample_store] gate k
  show ?thesis by simp
qed

text \<open>
  The claim as stated fails: a request with no field at all and no \<^verbatim>\<open>Authorization\<close>
  header is answered 401, not 400, on both routes.
\<close>

theorem missing_field_without_token_is_401:
  "body anonymous ''url'' = JUndefined
   \<and> fst (POST_api_bikes sample_env 2000 anonymous sample_store)
       = \<lparr>status = 401, json = Error ''No token provided''\<rparr>
   \<and> fst (PUT_api_bikes_id sample_env 2000 (anonymous\<lparr>params_id := ''12''\<rparr>) sample_store)
       = \<lparr>status = 401, json = Error ''No token provided''\<rparr>"
  by (simp add: anonymous_def POST_api_bikes_def PUT_api_bikes_id_def protected_def
      verifyToken_def)

text \<open>
  Claim C6. On each of the four protected routes (create, update and delete a listing,
  list the contact submissions) a request without an \<^verbatim>\<open>Authorization\<close> header is
  answered 401 by the auth gate, whatever the handler behind it is, and the store is returned as
  it was: no statement has been issued.
\<close>

theorem no_authorization_header_rejected:
  assumes "authorization req = None"
  shows "(\<forall>handler. protected e now handler req st
            = (\<lparr>status = 401, json = Error ''No token provided''\<rparr>, st))
       \<and> POST_api_bikes e now req st = (\<lparr>status = 401, json = Error ''No token provided''\<rparr>, st)
       \<and> PUT_api_bikes_id e now req st = (\<lparr>status = 401, json = Error ''No token provided''\<rparr>, st)
       \<and> DELETE_api_bikes_id e now req st = (\<lparr>status = 401, json = Error ''No token provided''\<rparr>, st)
       \<and> GET_api_contact_submissions e now req st
            = (\<lparr>status = 401, json = Error ''No token provided''\<rparr>, st)"
  using assms
  by (simp add: POST_api_bikes_def PUT_api_bikes_id_def DELETE_api_bikes_id_def
      GET_api_contact_submissions_def protected_def verifyToken_def)

theorem no_authorization_header_rejected_witness:
  "authorization anonymous = None
   \<and> POST_api_bikes sample_env 2000 anonymous sample_store
       = (\<lparr>status = 401, json = Error ''No token provided''\<rparr>, sample_store)
   \<and> GET_api_contact_submissions sample_env 2000 anonymous sample_store
       = (\<lparr>status = 401, json = Error ''No token provided''\<rparr>, sample_store)"
proof -
  have h: "authorization anonymous = None" by (simp add: anonymous_def)
  from no_authorization_header_rejected [OF h, of sample_env 2000 sample_store] h
  show ?thesis by simp
qed

text \<open>
  Claim C7, as amended. \<^verbatim>\<open>POST /api/login\<close> has no input validation step: for every
  request, also one without username or password, the handler issues the administrator
  lookup, exactly one statement, with the username as it came. An absent username reaches
  the store as NULL and matches nothing, and whenever no administrator matches, the answer
  is 401 \<^verbatim>\<open>Invalid username or password\<close> with no credential comparison.
\<close>

theorem login_has_no_validation_step:
  "snd (POST_api_login e now req st) = issue SELECT_ADMIN [body req ''username''] st
   \<and> (body req ''username'' = JUndefined \<longrightarrow>
        fst (POST_api_login e now req st)
          = \<lparr>status = 401, json = Error ''Invalid username or password''\<rparr>)
   \<and> ((\<forall>a \<in> set (admins st).
          map_option LOWER (prepareValue (body req ''username'')) \<noteq> Some (LOWER (admin_username a)))
        \<longrightarrow> fst (POST_api_login e now req st)
          = \<lparr>status = 401, json = Error ''Invalid username or password''\<rparr>)"
proof (intro conjI impI)
  show "snd (POST_api_login e now req st) = issue SELECT_ADMIN [body req ''username''] st"
    by (simp add: POST_api_login_def login_store)
next
  assume "body req ''username'' = JUndefined"
  then show "fst (POST_api_login e now req st)
          = \<lparr>status = 401, json = Error ''Invalid username or password''\<rparr>"
    by (simp add: POST_api_login_def login_def db_select_admin_def Let_def)
next
  assume a: "\<forall>a \<in> set (admins st).
          map_option LOWER (prepareValue (body req ''username'')) \<noteq> Some (LOWER (admin_username a))"
  show "fst (POST_api_login e now req st)
          = \<lparr>status = 401, json = Error ''Invalid username or password''\<rparr>"
  proof (cases "prepareValue (body req ''username'')")
    case None
    then show ?thesis
      by (simp add: POST_api_login_def login_def db_select_admin_def Let_def)
  next
    case (Some t)
    with a have "filter (\<lambda>a. LOWER (admin_username a) = LOWER t) (admins st) = []"
      by (auto simp: filter_empty_conv)
    with Some show ?thesis
      by (simp add: POST_api_login_def login_def db_select_admin_def Let_def)
  qed
qed

theorem login_has_no_validation_step_witness:
  "body (anonymous\<lparr>body := (\<lambda>k. if k = ''password'' then JStr ''secret'' else JUndefined)\<rparr>)
      ''username'' = JUndefined
   \<and> POST_api_login sample_env 2000
        (anonymous\<lparr>body := (\<lambda>k. if k = ''password'' then JStr ''secret'' else JUndefined)\<rparr>)
        sample_store
       = (\<lparr>status = 401, json = Error ''Invalid username or password''\<rparr>,
          sample_store\<lparr>statements := [(SELECT_ADMIN, [JUndefined])]\<rparr>)"
proof -
  let ?req = "anonymous\<lparr>body := (\<lambda>k. if k = ''password'' then JStr ''secret'' else JUndefined)\<rparr>"
  have u: "body ?req ''username'' = JUndefined" by simp
  from login_has_no_validation_step [of sample_env 2000 ?req sample_store] u
  have "snd (POST_api_login sample_env 2000 ?req sample_store)
          = sample_store\<lparr>statements := [(SELECT_ADMIN, [JUndefined])]\<rparr>"
    and "fst (POST_api_login sample_env 2000 ?req sample_store)
          = \<lparr>status = 401, json = Error ''Invalid username or password''\<rparr>"
    by (simp_all add: issue_def sample_store_def)
  with u show ?thesis by (simp add: prod_eq_iff)
qed

text \<open>
  The claim as stated fails: a login request with neither username nor password executes
  the store lookup and is answered 401 by the credential check.
\<close>

theorem login_without_credentials_queries_store:
  "body anonymous ''username'' = JUndefined
   \<and> body anonymous ''password'' = JUndefined
   \<and> POST_api_login sample_env 2000 anonymous sample_store
       = (\<lparr>status = 401, json = Error ''Invalid username or password''\<rparr>,
          sample_store\<lparr>statements := [(SELECT_ADMIN, [JUndefined])]\<rparr>)"
  by (simp add: anonymous_def POST_api_login_def login_def db_select_admin_def Let_def issue_def
      sample_store_def)

text \<open>
  Claim C8. When the auth gate admits the request and the submission times in the store are
  pairwise distinct, \<^verbatim>\<open>GET /api/contact-submissions\<close> answers 200 with all the rows of
  the table (the same multiset), each row submitted strictly later than every row after
  it. This holds for any number of rows, three or more included.
\<close>

theorem contact_submissions_newest_first:
  assumes "verifyToken e now req = Inr user"
    and "distinct (map submitted_at (contact_submissions st))"
  shows "\<exists>rows. fst (GET_api_contact_submissions e now req st)
                  = \<lparr>status = 200, json = SubmissionRows rows\<rparr>
              \<and> mset rows = mset (contact_submissions st)
              \<and> sorted_wrt (\<lambda>a b. submitted_at b < submitted_at a) rows"
  using assms
  by (simp add: GET_api_contact_submissions_def protected_def get_contact_submissions_def
      db_select_submissions_def order_by_submitted_at_desc_mset
      order_by_submitted_at_desc_sorted)

theorem contact_submissions_newest_first_witness:
  "verifyToken sample_env 2000 authenticated
     = Inr \<lparr>userId = 1, username = ''Admin'', iat = 1000, exp = 87400\<rparr>
   \<and> map submitted_at (contact_submissions sample_store) = [100, 200, 300]
   \<and> (\<exists>rows. fst (GET_api_contact_submissions sample_env 2000 authenticated sample_store)
                  = \<lparr>status = 200, json = SubmissionRows rows\<rparr>
              \<and> mset rows = mset (contact_submissions sample_store)
              \<and> sorted_wrt (\<lambda>a b. submitted_at b < submitted_at a) rows)
   \<and> fst (GET_api_contact_submissions sample_env 2000 authenticated sample_store)
       = \<lparr>status = 200,
          json = SubmissionRows
                   [sample_submission 3 300, sample_submission 2 200, sample_submission 1 100]\<rparr>"
proof -
  have gate: "verifyToken sample_env 2000 authenticated
     = Inr \<lparr>userId = 1, username = ''Admin'', iat = 1000, exp = 87400\<rparr>"
    by (rule bearer_sample_token_admitted [OF authenticated_header]) simp
  have times: "map submitted_at (contact_submissions sample_store) = [100, 200, 300]"
    by (simp add: sample_store_def sample_submission_def)
  have d: "distinct (map submitted_at (contact_submissions sample_store))"
    by (simp add: times)
  have rows: "fst (GET_api_contact_submissions sample_env 2000 authenticated sample_store)
       = \<lparr>status = 200,
          json = SubmissionRows
                   [sample_submission 3 300, sample_submission 2 200, sample_submission 1 100]\<rparr>"
    using gate
    by (simp add: GET_api_contact_submissions_def protected_def get_contact_submissions_def
        db_select_submissions_def order_by_submitted_at_desc_def sample_store_def
        sample_submission_def)
  from contact_submissions_newest_first [OF gate d] gate times rows show ?thesis by simp
qed




text \<open>
  Claim C10. The auth gate takes the second space-separated segment of the header as the token
  and never looks at the first: a header without a space is answered 401
  \<^verbatim>\<open>No token provided\<close>, and for a header \<open>a t\<close> or \<open>a t rest\<close> the outcome is that of
  the token \<open>t\<close> alone (401 \<^verbatim>\<open>No token provided\<close> when \<open>t\<close> is empty, else what
  verification of \<open>t\<close> gives), whether or not \<open>a\<close> is \<^verbatim>\<open>Bearer\<close>.
\<close>

theorem gate_takes_second_segment:
  "(CHR '' '' \<notin> set h \<and> authorization req = Some h \<longrightarrow>
      verifyToken e now req = Inl \<lparr>status = 401, json = Error ''No token provided''\<rparr>)
   \<and> (CHR '' '' \<notin> set a \<and> CHR '' '' \<notin> set t
       \<and> (h = a @ '' '' @ t \<or> h = a @ '' '' @ t @ '' '' @ rest)
       \<and> authorization req = Some h \<longrightarrow>
      verifyToken e now req =
        (if t = [] then Inl \<lparr>status = 401, json = Error ''No token provided''\<rparr>
         else (case jwt_verify (hmac e) t (JWT_SECRET e) now of
                 Inl err \<Rightarrow> Inl \<lparr>status = 401, json = Error ''Invalid token''\<rparr>
               | Inr decoded \<Rightarrow> Inr decoded)))"
proof (intro conjI impI)
  assume "CHR '' '' \<notin> set h \<and> authorization req = Some h"
  then show "verifyToken e now req = Inl \<lparr>status = 401, json = Error ''No token provided''\<rparr>"
    by (simp add: verifyToken_def at_index_def split_on_no_sep)
next
  assume a: "CHR '' '' \<notin> set a \<and> CHR '' '' \<notin> set t
       \<and> (h = a @ '' '' @ t \<or> h = a @ '' '' @ t @ '' '' @ rest)
       \<and> authorization req = Some h"
  then show "verifyToken e now req =
        (if t = [] then Inl \<lparr>status = 401, json = Error ''No token provided''\<rparr>
         else (case jwt_verify (hmac e) t (JWT_SECRET e) now of
                 Inl err \<Rightarrow> Inl \<lparr>status = 401, json = Error ''Invalid token''\<rparr>
               | Inr decoded \<Rightarrow> Inr decoded))"
    using verifyToken_segment [of a t h rest req e now] by simp
qed

theorem gate_takes_second_segment_witness:
  "verifyToken sample_env 2000 (anonymous\<lparr>authorization := Some sample_token\<rparr>)
     = Inl \<lparr>status = 401, json = Error ''No token provided''\<rparr>
   \<and> verifyToken sample_env 2000 (anonymous\<lparr>authorization := Some (''Basic '' @ sample_token)\<rparr>)
     = Inr \<lparr>userId = 1, username = ''Admin'', iat = 1000, exp = 87400\<rparr>
   \<and> verifyToken sample_env 2000
        (anonymous\<lparr>authorization := Some (''Bearer  '' @ sample_token)\<rparr>)
     = Inl \<lparr>status = 401, json = Error ''No token provided''\<rparr>"
proof (intro conjI)
  show "verifyToken sample_env 2000 (anonymous\<lparr>authorization := Some sample_token\<rparr>)
     = Inl \<lparr>status = 401, json = Error ''No token provided''\<rparr>"
    using gate_takes_second_segment [where h = sample_token and e = sample_env and now = 2000
        and req = "anonymous\<lparr>authorization := Some sample_token\<rparr>"]
    by (simp add: sample_token_no_space)
next
  show "verifyToken sample_env 2000 (anonymous\<lparr>authorization := Some (''Basic '' @ sample_token)\<rparr>)
     = Inr \<lparr>userId = 1, username = ''Admin'', iat = 1000, exp = 87400\<rparr>"
    using gate_takes_second_segment [where a = "''Basic''" and t = sample_token
        and h = "''Basic '' @ sample_token" and e = sample_env and now = 2000
        and req = "anonymous\<lparr>authorization := Some (''Basic '' @ sample_token)\<rparr>"]
    by (simp add: sample_token_no_space sample_token_not_Nil sample_token_verifies)
next
  show "verifyToken sample_env 2000
        (anonymous\<lparr>authorization := Some (''Bearer  '' @ sample_token)\<rparr>)
     = Inl \<lparr>status = 401, json = Error ''No token provided''\<rparr>"
    using gate_takes_second_segment [where a = "''Bearer''" and t = "[]" and rest = sample_token
        and h = "''Bearer  '' @ sample_token" and e = sample_env and now = 2000
        and req = "anonymous\<lparr>authorization := Some (''Bearer  '' @ sample_token)\<rparr>"]
    by simp
qed

end
